theory Spec2Isabelle
  imports Complex_Main "HOL-Library.Monad_Syntax"
begin

section \<open>Data model of \<^verbatim>\<open>examples/ex23p.cpp\<close>\<close>

text \<open>
  The example keeps its configuration in file-scope variables: \<^verbatim>\<open>omega\<close>,
  \<^verbatim>\<open>dim\<close>, the three \<^verbatim>\<open>Array2D<double>\<close> tables \<^verbatim>\<open>domain_bdr\<close>,
  \<^verbatim>\<open>pml_lngth\<close>, \<^verbatim>\<open>comp_domain_bdr\<close> and the enum \<^verbatim>\<open>prob\<close>.  They are
  gathered in one record that every function takes and, where it writes a table, returns.

  A \<^verbatim>\<open>double\<close> is modelled as a real number, a \<^verbatim>\<open>std::complex<double>\<close> as a
  complex number: rounding is not modelled.  A table \<^verbatim>\<open>a\<close> is a function on index
  pairs, so that the source's \<^verbatim>\<open>a(i, j)\<close> reads \<open>a (i, j)\<close>; the sizes the source gives
  the tables are kept as range checks where the source indexes with a constant.
\<close>

datatype prob_type = load_src | scatter | waveguide | cyl_waveguide

type_synonym array2d = "nat \<times> nat \<Rightarrow> real"

record globals =
  omega :: real
  dim :: nat
  domain_bdr :: array2d
  pml_lngth :: array2d
  comp_domain_bdr :: array2d
  prob :: prob_type

section \<open>PML layer geometry: \<^verbatim>\<open>compute_pml_mesh_data\<close>, lines 489 to 529\<close>

text \<open>
  The first half of the function (lines 454 to 487) fills \<^verbatim>\<open>domain_bdr\<close>, a table of
  size 3 by 2, with the minimum and maximum of the mesh nodes through MFEM's mesh and
  vector classes; the model starts after it, with \<open>domain_bdr\<close> as it stands in the
  record.

  \<^verbatim>\<open>pml_lngth.SetSize(dim, 2)\<close> and \<^verbatim>\<open>comp_domain_bdr.SetSize(dim, 2)\<close> size the two
  tables and assign nothing (\<^verbatim>\<open>SetSize\<close> is MFEM's, called without an initial value):
  the entries hold what the storage held, which is what the incoming record holds here.
  An entry the branches below do not assign keeps that value.

  The result is \<open>None\<close> when the function indexes a table outside its size: a row
  \<open>i \<ge> 3\<close> of \<^verbatim>\<open>domain_bdr\<close> (when \<open>dim > 3\<close>), row 0 of \<^verbatim>\<open>pml_lngth\<close> when
  \<open>dim = 0\<close>, row 2 of it when \<open>dim < 3\<close>.
\<close>

text \<open>Line 497, the body of the loop over \<open>j\<close>.\<close>

definition scatter_lngth :: "nat \<Rightarrow> nat \<Rightarrow> globals \<Rightarrow> globals" where
  "scatter_lngth i j g =
     g\<lparr>pml_lngth := (pml_lngth g)((i, j) := 0.25 * (domain_bdr g (i, 1) - domain_bdr g (i, 0)))\<rparr>"

text \<open>Lines 495 to 500, the body of the loop over \<open>i\<close> of the first branch.\<close>

definition scatter_axis :: "nat \<Rightarrow> globals \<Rightarrow> globals" where
  "scatter_axis i g =
     (let g1 = fold (scatter_lngth i) [0..<2] g;
          g2 = g1\<lparr>comp_domain_bdr :=
                 (comp_domain_bdr g1)((i, 0) := domain_bdr g1 (i, 0) + pml_lngth g1 (i, 0))\<rparr>
      in g2\<lparr>comp_domain_bdr :=
              (comp_domain_bdr g2)((i, 1) := domain_bdr g2 (i, 1) - pml_lngth g2 (i, 1))\<rparr>)"

text \<open>Lines 507 and 508 (and 518, 519), the body of the loop of the waveguide branches.\<close>

definition copy_axis :: "nat \<Rightarrow> globals \<Rightarrow> globals" where
  "copy_axis i g =
     (let g1 = g\<lparr>comp_domain_bdr := (comp_domain_bdr g)((i, 0) := domain_bdr g (i, 0))\<rparr>
      in g1\<lparr>comp_domain_bdr := (comp_domain_bdr g1)((i, 1) := domain_bdr g1 (i, 1))\<rparr>)"

text \<open>
  Lines 511, 512 with \<open>k = 0\<close>, \<open>f = 0.25\<close> and lines 522, 523 with \<open>k = 2\<close>,
  \<open>f = 0.125\<close>: the layer on the high side of axis \<open>k\<close>.
\<close>

definition high_layer :: "nat \<Rightarrow> real \<Rightarrow> globals \<Rightarrow> globals" where
  "high_layer k f g =
     (let g1 = g\<lparr>pml_lngth :=
                 (pml_lngth g)((k, 1) := f * (domain_bdr g (k, 1) - domain_bdr g (k, 0)))\<rparr>
      in g1\<lparr>comp_domain_bdr :=
              (comp_domain_bdr g1)((k, 1) := domain_bdr g1 (k, 1) - pml_lngth g1 (k, 1))\<rparr>)"

definition compute_pml_mesh_data :: "globals \<Rightarrow> globals option" where
  "compute_pml_mesh_data g =
     (if 3 < dim g then None
      else if prob g = scatter \<or> prob g = load_src then
        Some (fold scatter_axis [0..<dim g] g)
      else if prob g = waveguide then
        (if dim g < 1 then None
         else Some (high_layer 0 0.25 (fold copy_axis [0..<dim g] g)))
      else if prob g = cyl_waveguide then
        (if dim g < 3 then None
         else Some (high_layer 2 0.125 (fold copy_axis [0..<dim g] g)))
      else Some g)"

section \<open>Division by zero and the square root of a negative number\<close>

text \<open>
  C++ does not stop at \<^verbatim>\<open>a / 0.0\<close> or \<^verbatim>\<open>sqrt(-1.0)\<close>: the result is an infinity or
  a NaN, and the computation goes on with it.  HOL's \<open>a / 0\<close> is \<open>0\<close>, which would hide
  that.  So a \<^verbatim>\<open>double\<close> that a division or a square root has gone into is a
  \<open>real option\<close> (a \<^verbatim>\<open>std::complex<double>\<close> a \<open>complex option\<close>): \<open>Some v\<close> is
  the real number computed, \<open>None\<close> says that a division by zero or a square root of a
  negative number was evaluated on the way to this value, which is then an infinity, a NaN
  or what the arithmetic on those makes of them, and not the number the formulas denote.
  Arithmetic on such values is written in the option monad.  Nothing is raised: every
  function below still returns.
\<close>

definition fdiv :: "real \<Rightarrow> real \<Rightarrow> real option" where
  "fdiv a b = (if b = 0 then None else Some (a / b))"

definition cdiv :: "complex \<Rightarrow> complex \<Rightarrow> complex option" where
  "cdiv a b = (if b = 0 then None else Some (a / b))"

definition fsqrt :: "real \<Rightarrow> real option" where
  "fsqrt a = (if a < 0 then None else Some (sqrt a))"

section \<open>The complex stretching function: \<^verbatim>\<open>pml_function\<close>, lines 818 to 850\<close>

text \<open>
  The locals \<^verbatim>\<open>double n = 2.0\<close> and \<^verbatim>\<open>double c = 10.0\<close>.  The two calls of
  \<^verbatim>\<open>pow\<close> have the exponents \<^verbatim>\<open>n\<close> and \<^verbatim>\<open>n - 1.0\<close>, the whole numbers 2 and 1,
  where \<^verbatim>\<open>pow\<close> is the power by a natural number, also for a negative base.
\<close>

definition pml_n :: nat where
  "pml_n = 2"

definition pml_c :: real where
  "pml_c = 10"

text \<open>
  Lines 840 and 845: \<^verbatim>\<open>coeff = n * c / omega / pow(pml_lngth(i, j), n)\<close>, with
  \<open>j = 1\<close> in the first and \<open>j = 0\<close> in the second.
\<close>

definition pml_coeff :: "globals \<Rightarrow> nat \<Rightarrow> nat \<Rightarrow> real option" where
  "pml_coeff g i j =
     do { q \<leftarrow> fdiv (real pml_n * pml_c) (omega g);
          fdiv q (pml_lngth g (i, j) ^ pml_n) }"

text \<open>
  Lines 841 and 846:
  \<^verbatim>\<open>one + zi * coeff * abs(pow(x(i) - comp_domain_bdr(i, j), n - 1.0))\<close>.
\<close>

definition pml_stretch :: "globals \<Rightarrow> real list \<Rightarrow> nat \<Rightarrow> nat \<Rightarrow> complex option" where
  "pml_stretch g x i j =
     do { coeff \<leftarrow> pml_coeff g i j;
          Some (1 + \<i> * complex_of_real coeff *
                  complex_of_real \<bar>(x ! i - comp_domain_bdr g (i, j)) ^ (pml_n - 1)\<bar>) }"

text \<open>
  Lines 838 to 847, the body of the loop over \<open>j\<close>, which does not mention \<open>j\<close>: two
  independent tests, the high side first.  Both comparisons include equality.
\<close>

definition pml_body :: "globals \<Rightarrow> real list \<Rightarrow> nat \<Rightarrow> complex option list \<Rightarrow> complex option list" where
  "pml_body g x i dxs =
     (let dxs1 = (if x ! i \<ge> comp_domain_bdr g (i, 1) then dxs[i := pml_stretch g x i 1] else dxs)
      in if x ! i \<le> comp_domain_bdr g (i, 0) then dxs1[i := pml_stretch g x i 0] else dxs1)"

text \<open>
  The function: \<open>dxs\<close> is the vector the caller passes, whose first \<open>dim\<close> entries are
  set to one and then stretched, axis by axis, the body run twice for each.
\<close>

definition pml_function :: "globals \<Rightarrow> real list \<Rightarrow> complex option list \<Rightarrow> complex option list" where
  "pml_function g x dxs =
     (let dxs1 = fold (\<lambda>i d. d[i := Some 1]) [0..<dim g] dxs
      in fold (\<lambda>i d. fold (\<lambda>j d'. pml_body g x i d') [0..<2] d) [0..<dim g] dxs1)"

section \<open>The inverse Jacobian determinant: lines 852 to 879\<close>

text \<open>
  \<^verbatim>\<open>pml_detJ_inv_Re\<close> and \<^verbatim>\<open>pml_detJ_inv_Im\<close> are the same text up to the last
  line: a vector \<^verbatim>\<open>dxs(dim)\<close> of zeros is passed to \<^verbatim>\<open>pml_function\<close>, \<^verbatim>\<open>det\<close>
  starts at one and is multiplied by each entry, and \<^verbatim>\<open>det_inv = one / det\<close>.
\<close>

definition pml_det :: "globals \<Rightarrow> real list \<Rightarrow> complex option" where
  "pml_det g x =
     (let dxs = pml_function g x (replicate (dim g) (Some 0))
      in fold (\<lambda>i det. do { d \<leftarrow> det; v \<leftarrow> dxs ! i; Some (d * v) }) [0..<dim g] (Some 1))"

definition pml_det_inv :: "globals \<Rightarrow> real list \<Rightarrow> complex option" where
  "pml_det_inv g x = do { det \<leftarrow> pml_det g x; cdiv 1 det }"

definition pml_detJ_inv_Re :: "globals \<Rightarrow> real list \<Rightarrow> real option" where
  "pml_detJ_inv_Re g x = map_option Re (pml_det_inv g x)"

definition pml_detJ_inv_Im :: "globals \<Rightarrow> real list \<Rightarrow> real option" where
  "pml_detJ_inv_Im g x = map_option Im (pml_det_inv g x)"

section \<open>The element classifier: \<^verbatim>\<open>compute_pml_elem_list\<close>, lines 535 to 584\<close>

text \<open>
  The mesh is read through MFEM: \<^verbatim>\<open>GetNE\<close>, \<^verbatim>\<open>GetElement(i)->GetVertices\<close> and the
  nodal grid function, which lines 548 to 555 copy into the table \<^verbatim>\<open>coords(ndofs, dim)\<close>.
  The model takes what those calls deliver: the list of the elements, each the list of its
  vertex indices, and the table \<open>coords\<close>.

  Lines 569 to 577, the loop over the components \<^verbatim>\<open>comp\<close> of one vertex (\<open>cmp\<close>
  here); \<^verbatim>\<open>break\<close> leaves it.
\<close>

fun comp_loop :: "globals \<Rightarrow> array2d \<Rightarrow> nat \<Rightarrow> nat list \<Rightarrow> bool \<Rightarrow> bool" where
  "comp_loop g coords vert_idx [] in_pml = in_pml"
| "comp_loop g coords vert_idx (cmp # comps) in_pml =
     (if coords (vert_idx, cmp) > comp_domain_bdr g (cmp, 1) \<or>
         coords (vert_idx, cmp) < comp_domain_bdr g (cmp, 0)
      then True
      else comp_loop g coords vert_idx comps in_pml)"

text \<open>Lines 565 to 578: \<^verbatim>\<open>in_pml\<close> starts false and the loop over the vertices runs to its end.\<close>

definition vertex_loop :: "globals \<Rightarrow> array2d \<Rightarrow> nat list \<Rightarrow> bool" where
  "vertex_loop g coords vertices =
     fold (\<lambda>vert_idx in_pml. comp_loop g coords vert_idx [0..<dim g] in_pml) vertices False"

text \<open>
  The function: \<^verbatim>\<open>elem_pml\<close> gets the size of the element list and the value 1 in every
  entry, and the entry of an element found in the layer is set to 0.
\<close>

definition compute_pml_elem_list :: "globals \<Rightarrow> nat list list \<Rightarrow> array2d \<Rightarrow> int list" where
  "compute_pml_elem_list g elems coords =
     fold (\<lambda>i elem_pml. if vertex_loop g coords (elems ! i) then elem_pml[i := 0] else elem_pml)
       [0..<length elems] (replicate (length elems) 1)"

section \<open>The volumetric source: \<^verbatim>\<open>source_im\<close>, lines 426 to 450\<close>

text \<open>
  Lines 433 to 438: \<^verbatim>\<open>r\<close> starts at 0 and gathers the squared distance to the centre of
  the computational box, one axis in each round.  A \<^verbatim>\<open>Vector\<close> is a list of reals, read
  with \<open>!\<close>.
\<close>

definition source_r :: "globals \<Rightarrow> real list \<Rightarrow> real" where
  "source_r g x =
     fold (\<lambda>i r. let center_i = 0.5 * (comp_domain_bdr g (i, 0) + comp_domain_bdr g (i, 1))
                 in r + (x ! i - center_i) ^ 2)
       [0..<dim g] 0"

text \<open>
  The function takes the output vector \<^verbatim>\<open>f_im\<close> as the caller passes it and returns it
  as the function leaves it.  Its one assignment is \<^verbatim>\<open>f_im[0] = coeff * exp(alpha)\<close>; the
  line \<^verbatim>\<open>f_im = 0.0\<close> stands in a comment.  The two divisions are by \<^verbatim>\<open>M_PI\<close>.
\<close>

definition source_im :: "globals \<Rightarrow> real list \<Rightarrow> real list \<Rightarrow> real list" where
  "source_im g x f_im =
     (let r = source_r g x;
          n = 5 * omega g / pi;
          coeff = n ^ 2 / pi;
          alpha = - (n ^ 2) * r
      in f_im[0 := coeff * exp alpha])"

section \<open>The closed-form fields: \<^verbatim>\<open>maxwell_ess_data\<close>, lines 586 to 711\<close>

text \<open>
  The Bessel functions \<^verbatim>\<open>jn\<close> and \<^verbatim>\<open>yn\<close> of the C library are parameters of the
  model, with a result that may be no number (\<^verbatim>\<open>yn\<close> has a pole at 0).  The Hankel
  function of order \<open>k\<close> is the text \<^verbatim>\<open>jn(k, beta) + zi * yn(k, beta)\<close>.
\<close>

type_synonym bessel = "int \<Rightarrow> real \<Rightarrow> real option"

definition hankel :: "bessel \<Rightarrow> bessel \<Rightarrow> int \<Rightarrow> real \<Rightarrow> complex option" where
  "hankel jn yn k beta =
     do { j \<leftarrow> jn k beta; y \<leftarrow> yn k beta; Some (of_real j + \<i> * of_real y) }"

text \<open>Lines 638 to 643: \<^verbatim>\<open>shift(i) = -0.5 * (domain_bdr(i, 0) + domain_bdr(i, 1))\<close>.\<close>

definition shift :: "globals \<Rightarrow> nat \<Rightarrow> real" where
  "shift g i = - 0.5 * (domain_bdr g (i, 0) + domain_bdr g (i, 1))"

text \<open>
  Lines 596 to 607, the rectangular waveguide.  \<^verbatim>\<open>k10\<close> is a square root, the division
  by \<^verbatim>\<open>M_PI\<close> is by a constant, and \<^verbatim>\<open>E[1] /= Ho\<close> divides by \<open>omega / M_PI\<close>.
\<close>

definition waveguide_mode :: "globals \<Rightarrow> real list \<Rightarrow> complex option" where
  "waveguide_mode g x =
     (let k10 = fsqrt (omega g * omega g - pi * pi);
          E1 = do { k \<leftarrow> k10;
                    Some (- \<i> * of_real (omega g) / of_real pi * of_real (sin (pi * x ! 2)) *
                          exp (\<i> * of_real k * of_real (x ! 0))) };
          Ho = omega g / pi
      in do { e \<leftarrow> E1; cdiv e (of_real Ho) })"

text \<open>
  Lines 645 to 673, the point source in two dimensions.  The values \<^verbatim>\<open>val_x\<close> of the
  source are assigned and never read; they are left out.  The result is the pair of
  \<^verbatim>\<open>E[0]\<close> and \<^verbatim>\<open>E[1]\<close>.
\<close>

definition scatter_2d :: "bessel \<Rightarrow> bessel \<Rightarrow> globals \<Rightarrow> real list \<Rightarrow> complex option \<times> complex option" where
  "scatter_2d jn yn g x =
     (let x0 = x ! 0 + shift g 0;
          x1 = x ! 1 + shift g 1;
          r = sqrt (x0 * x0 + x1 * x1);
          beta = omega g * r;
          Ho = hankel jn yn 0 beta;
          Ho_r = do { h1 \<leftarrow> hankel jn yn 1 beta; Some (- of_real (omega g) * h1) };
          Ho_rr = do { q \<leftarrow> fdiv 1 beta;
                       h1 \<leftarrow> hankel jn yn 1 beta;
                       h2 \<leftarrow> hankel jn yn 2 beta;
                       Some (- of_real (omega g) * of_real (omega g) * (of_real q * h1 - h2)) };
          r_x = fdiv x0 r;
          r_y = fdiv x1 r;
          r_xy = do { rx \<leftarrow> r_x; q \<leftarrow> fdiv rx r; ry \<leftarrow> r_y; Some (- q * ry) };
          r_xx = do { q \<leftarrow> fdiv 1 r; rx \<leftarrow> r_x; Some (q * (1 - rx * rx)) };
          val = do { h \<leftarrow> Ho; Some (0.25 * \<i> * h) };
          val_xx = do { rxx \<leftarrow> r_xx; hr \<leftarrow> Ho_r; rx \<leftarrow> r_x; hrr \<leftarrow> Ho_rr;
                        Some (0.25 * \<i> * (of_real rxx * hr + of_real rx * of_real rx * hrr)) };
          val_xy = do { rxy \<leftarrow> r_xy; hr \<leftarrow> Ho_r; rx \<leftarrow> r_x; ry \<leftarrow> r_y; hrr \<leftarrow> Ho_rr;
                        Some (0.25 * \<i> * (of_real rxy * hr + of_real rx * of_real ry * hrr)) };
          E0 = do { q \<leftarrow> cdiv \<i> (of_real (omega g)); v \<leftarrow> val; vxx \<leftarrow> val_xx;
                    Some (q * (of_real (omega g) * of_real (omega g) * v + vxx)) };
          E1 = do { q \<leftarrow> cdiv \<i> (of_real (omega g)); vxy \<leftarrow> val_xy; Some (q * vxy) }
      in (E0, E1))"

text \<open>
  Lines 676 to 708, the point source in three dimensions (the \<^verbatim>\<open>else\<close> of
  \<^verbatim>\<open>dim == 2\<close>).  Again \<^verbatim>\<open>val_x\<close>, \<^verbatim>\<open>val_y\<close>, \<^verbatim>\<open>val_z\<close> are never read.  The result
  is the triple of \<^verbatim>\<open>E[0]\<close>, \<^verbatim>\<open>E[1]\<close>, \<^verbatim>\<open>E[2]\<close>.
\<close>

definition scatter_3d :: "globals \<Rightarrow> real list \<Rightarrow> complex option \<times> complex option \<times> complex option" where
  "scatter_3d g x =
     (let x0 = x ! 0 + shift g 0;
          x1 = x ! 1 + shift g 1;
          x2 = x ! 2 + shift g 2;
          r = sqrt (x0 * x0 + x1 * x1 + x2 * x2);
          r_x = fdiv x0 r;
          r_y = fdiv x1 r;
          r_z = fdiv x2 r;
          r_xx = do { q \<leftarrow> fdiv 1 r; rx \<leftarrow> r_x; Some (q * (1 - rx * rx)) };
          r_yx = do { ry \<leftarrow> r_y; q \<leftarrow> fdiv ry r; rx \<leftarrow> r_x; Some (- q * rx) };
          r_zx = do { rz \<leftarrow> r_z; q \<leftarrow> fdiv rz r; rx \<leftarrow> r_x; Some (- q * rx) };
          val = cdiv (exp (\<i> * of_real (omega g) * of_real r)) (of_real r);
          val_r = do { v \<leftarrow> val; q \<leftarrow> cdiv v (of_real r);
                       Some (q * (\<i> * of_real (omega g) - 1)) };
          val_rr = do { v \<leftarrow> val; q \<leftarrow> cdiv v (of_real (r * r));
                        Some (q * (- of_real (omega g) * of_real (omega g) * of_real r * of_real r
                                   - 2 * \<i> * of_real (omega g) * of_real r + 2)) };
          val_xx = do { vrr \<leftarrow> val_rr; rx \<leftarrow> r_x; vr \<leftarrow> val_r; rxx \<leftarrow> r_xx;
                        Some (vrr * of_real rx * of_real rx + vr * of_real rxx) };
          val_yx = do { vrr \<leftarrow> val_rr; rx \<leftarrow> r_x; ry \<leftarrow> r_y; vr \<leftarrow> val_r; ryx \<leftarrow> r_yx;
                        Some (vrr * of_real rx * of_real ry + vr * of_real ryx) };
          val_zx = do { vrr \<leftarrow> val_rr; rx \<leftarrow> r_x; rz \<leftarrow> r_z; vr \<leftarrow> val_r; rzx \<leftarrow> r_zx;
                        Some (vrr * of_real rx * of_real rz + vr * of_real rzx) };
          alpha = do { a \<leftarrow> cdiv (\<i> * of_real (omega g) / 4 / of_real pi) (of_real (omega g));
                       cdiv a (of_real (omega g)) };
          E0 = do { a \<leftarrow> alpha; v \<leftarrow> val; vxx \<leftarrow> val_xx;
                    Some (a * (of_real (omega g) * of_real (omega g) * v + vxx)) };
          E1 = do { a \<leftarrow> alpha; vyx \<leftarrow> val_yx; Some (a * vyx) };
          E2 = do { a \<leftarrow> alpha; vzx \<leftarrow> val_zx; Some (a * vzx) }
      in (E0, E1, E2))"

text \<open>
  The function: \<open>E\<close> is the vector the caller passes.  Its first \<open>dim\<close> entries are set
  to zero, then the variant decides; the cylindrical waveguide sets two entries to one on
  the face \<^verbatim>\<open>x[2] == 0.0\<close>, and \<open>load_src\<close> has no branch.
\<close>

definition maxwell_ess_data ::
    "bessel \<Rightarrow> bessel \<Rightarrow> globals \<Rightarrow> real list \<Rightarrow> complex option list \<Rightarrow> complex option list" where
  "maxwell_ess_data jn yn g x E =
     (let E = fold (\<lambda>i E. E[i := Some 0]) [0..<dim g] E
      in if prob g = waveguide then E[1 := waveguide_mode g x]
         else if prob g = cyl_waveguide then
           (if x ! 2 = 0 then (E[0 := Some 1])[1 := Some 1] else E)
         else if prob g = scatter then
           (if dim g = 2 then
              (case scatter_2d jn yn g x of (E0, E1) \<Rightarrow> (E[0 := E0])[1 := E1])
            else
              (case scatter_3d g x of (E0, E1, E2) \<Rightarrow> ((E[0 := E0])[1 := E1])[2 := E2]))
         else E)"

section \<open>The essential boundary data: \<^verbatim>\<open>E_bdr_data_Re\<close> and \<^verbatim>\<open>E_bdr_data_Im\<close>, lines 713 to 815\<close>

text \<open>
  Lines 720 to 728 (and 773 to 780): the search for an axis on which the point lies
  within \<^verbatim>\<open>1e-13\<close> of a face of the domain box; \<^verbatim>\<open>break\<close> ends it at the first one.
\<close>

fun bdr_loop :: "globals \<Rightarrow> real list \<Rightarrow> nat list \<Rightarrow> bool" where
  "bdr_loop g x [] = False"
| "bdr_loop g x (i # is) =
     (if \<bar>x ! i - domain_bdr g (i, 0)\<bar> < 1 / 10 ^ 13 \<or> \<bar>x ! i - domain_bdr g (i, 1)\<bar> < 1 / 10 ^ 13
      then True
      else bdr_loop g x is)"

text \<open>
  Lines 731 to 736 and their copies: a vector \<^verbatim>\<open>Eval\<close> of the size of \<open>E\<close>, filled with
  zeros, goes through \<^verbatim>\<open>maxwell_ess_data\<close>, and the first \<open>dim\<close> entries of \<open>E\<close> get
  the part \<open>part\<close> (real or imaginary) of its entries.
\<close>

definition copy_part ::
    "(complex \<Rightarrow> real) \<Rightarrow> bessel \<Rightarrow> bessel \<Rightarrow> globals \<Rightarrow> real list \<Rightarrow> real option list \<Rightarrow> real option list" where
  "copy_part part jn yn g x E =
     (let Eval = maxwell_ess_data jn yn g x (replicate (length E) (Some 0))
      in fold (\<lambda>i E. E[i := map_option part (Eval ! i)]) [0..<dim g] E)"

text \<open>
  The two functions are one text up to \<^verbatim>\<open>.real()\<close> and \<^verbatim>\<open>.imag()\<close>.  \<open>E\<close> is the
  vector the caller passes; \<^verbatim>\<open>E = 0.0\<close> sets every entry to zero.
\<close>

definition E_bdr_data ::
    "(complex \<Rightarrow> real) \<Rightarrow> bessel \<Rightarrow> bessel \<Rightarrow> globals \<Rightarrow> real list \<Rightarrow> real option list \<Rightarrow> real option list" where
  "E_bdr_data part jn yn g x E =
     (let E = replicate (length E) (Some 0)
      in if prob g = scatter then
           (let in_pml = bdr_loop g x [0..<dim g]
            in if \<not> in_pml then copy_part part jn yn g x E else E)
         else if prob g = waveguide then
           (let E = copy_part part jn yn g x E
            in if \<bar>x ! 0 - domain_bdr g (0, 1)\<bar> < 1 / 10 ^ 13
               then replicate (length E) (Some 0) else E)
         else if prob g = cyl_waveguide then copy_part part jn yn g x E
         else E)"

definition E_bdr_data_Re ::
    "bessel \<Rightarrow> bessel \<Rightarrow> globals \<Rightarrow> real list \<Rightarrow> real option list \<Rightarrow> real option list" where
  "E_bdr_data_Re = E_bdr_data Re"

definition E_bdr_data_Im ::
    "bessel \<Rightarrow> bessel \<Rightarrow> globals \<Rightarrow> real list \<Rightarrow> real option list \<Rightarrow> real option list" where
  "E_bdr_data_Im = E_bdr_data Im"

section \<open>Concrete configurations\<close>

text \<open>
  The unit square of the scattering scenario, and the rectangular waveguide of the
  example's own mesh (8 by 1 by 1), whose \<^verbatim>\<open>pml_lngth\<close> storage holds 7 in every entry
  before the call.
\<close>

definition unit_square :: globals where
  "unit_square =
     \<lparr>omega = 2 * pi, dim = 2,
      domain_bdr = (\<lambda>(i, j). if j = 1 then 1 else 0),
      pml_lngth = (\<lambda>_. 0), comp_domain_bdr = (\<lambda>_. 0), prob = scatter\<rparr>"

definition wg_bar :: globals where
  "wg_bar =
     \<lparr>omega = 2 * pi, dim = 3,
      domain_bdr = (\<lambda>(i, j). if j = 1 then (if i = 0 then 8 else 1) else 0),
      pml_lngth = (\<lambda>_. 7), comp_domain_bdr = (\<lambda>_. 0), prob = waveguide\<rparr>"

text \<open>
  The unit square at the frequency 0 of the command line, the waveguide whose storage held
  zeros, the unit square of the volumetric-load variant and the unit cube of the
  scattering variant.
\<close>

definition static_square :: globals where
  "static_square = unit_square\<lparr>omega := 0\<rparr>"

definition wg_zero :: globals where
  "wg_zero = wg_bar\<lparr>pml_lngth := (\<lambda>_. 0)\<rparr>"

definition load_unit_square :: globals where
  "load_unit_square = unit_square\<lparr>prob := load_src\<rparr>"

definition unit_cube :: globals where
  "unit_cube = unit_square\<lparr>dim := 3\<rparr>"

text \<open>The configurations after \<open>compute_pml_mesh_data\<close>.\<close>

definition unit_square_pml :: globals where
  "unit_square_pml = the (compute_pml_mesh_data unit_square)"

definition unit_square_static :: globals where
  "unit_square_static = the (compute_pml_mesh_data static_square)"

definition wg_bar_pml :: globals where
  "wg_bar_pml = the (compute_pml_mesh_data wg_bar)"

definition wg_zero_pml :: globals where
  "wg_zero_pml = the (compute_pml_mesh_data wg_zero)"

definition load_square :: globals where
  "load_square = the (compute_pml_mesh_data load_unit_square)"

definition unit_cube_pml :: globals where
  "unit_cube_pml = the (compute_pml_mesh_data unit_cube)"

text \<open>
  Four vertices on the unit square, the corner \<open>(0, 0)\<close> first and the centre last, and two
  triangles: one with the corner, one collapsed onto the centre.
\<close>

definition square_coords :: array2d where
  "square_coords = (\<lambda>(v, c). [[0, 0], [1 / 2, 0], [1 / 2, 1 / 4], [1 / 2, 1 / 2]] ! v ! c)"

definition square_elems :: "nat list list" where
  "square_elems = [[0, 1, 2], [3, 3, 3]]"

section \<open>The layer geometry\<close>

subsection \<open>What the loops leave in the tables\<close>

lemma scatter_axis_eq:
  "scatter_axis i g =
     g\<lparr>pml_lngth := (pml_lngth g)
          ((i, 0) := 0.25 * (domain_bdr g (i, 1) - domain_bdr g (i, 0)),
           (i, 1) := 0.25 * (domain_bdr g (i, 1) - domain_bdr g (i, 0))),
       comp_domain_bdr := (comp_domain_bdr g)
          ((i, 0) := domain_bdr g (i, 0) + 0.25 * (domain_bdr g (i, 1) - domain_bdr g (i, 0)),
           (i, 1) := domain_bdr g (i, 1) - 0.25 * (domain_bdr g (i, 1) - domain_bdr g (i, 0)))\<rparr>"
proof -
  have two: "[0..<2] = [0, Suc 0]"
    by (simp add: numeral_2_eq_2)
  show ?thesis
    by (simp add: scatter_axis_def scatter_lngth_def two Let_def)
qed

lemma scatter_axis_fields:
  "omega (scatter_axis i g) = omega g"
  "dim (scatter_axis i g) = dim g"
  "prob (scatter_axis i g) = prob g"
  "domain_bdr (scatter_axis i g) = domain_bdr g"
  "pml_lngth (scatter_axis i g) = (pml_lngth g)
     ((i, 0) := 0.25 * (domain_bdr g (i, 1) - domain_bdr g (i, 0)),
      (i, 1) := 0.25 * (domain_bdr g (i, 1) - domain_bdr g (i, 0)))"
  "comp_domain_bdr (scatter_axis i g) = (comp_domain_bdr g)
     ((i, 0) := domain_bdr g (i, 0) + 0.25 * (domain_bdr g (i, 1) - domain_bdr g (i, 0)),
      (i, 1) := domain_bdr g (i, 1) - 0.25 * (domain_bdr g (i, 1) - domain_bdr g (i, 0)))"
  by (simp_all add: scatter_axis_eq)

lemma fold_scatter_axis_frame:
  "omega (fold scatter_axis [0..<n] g) = omega g \<and>
   dim (fold scatter_axis [0..<n] g) = dim g \<and>
   prob (fold scatter_axis [0..<n] g) = prob g \<and>
   domain_bdr (fold scatter_axis [0..<n] g) = domain_bdr g"
  by (induction n) (simp_all add: scatter_axis_fields)

lemma fold_scatter_axis_lngth:
  "pml_lngth (fold scatter_axis [0..<n] g) (i, j) =
     (if i < n \<and> j < 2 then 0.25 * (domain_bdr g (i, 1) - domain_bdr g (i, 0))
      else pml_lngth g (i, j))"
proof (induction n)
  case 0
  show ?case by simp
next
  case (Suc n)
  have j2: "j < 2 \<longleftrightarrow> j = 0 \<or> j = 1"
    by auto
  show ?case
    using Suc by (auto simp: scatter_axis_fields fold_scatter_axis_frame j2)
qed

lemma fold_scatter_axis_comp:
  "comp_domain_bdr (fold scatter_axis [0..<n] g) (i, j) =
     (if i < n \<and> j = 0 then
        domain_bdr g (i, 0) + 0.25 * (domain_bdr g (i, 1) - domain_bdr g (i, 0))
      else if i < n \<and> j = 1 then
        domain_bdr g (i, 1) - 0.25 * (domain_bdr g (i, 1) - domain_bdr g (i, 0))
      else comp_domain_bdr g (i, j))"
proof (induction n)
  case 0
  show ?case by simp
next
  case (Suc n)
  then show ?case
    by (auto simp: scatter_axis_fields fold_scatter_axis_frame)
qed

lemma copy_axis_fields:
  "omega (copy_axis i g) = omega g"
  "dim (copy_axis i g) = dim g"
  "prob (copy_axis i g) = prob g"
  "domain_bdr (copy_axis i g) = domain_bdr g"
  "pml_lngth (copy_axis i g) = pml_lngth g"
  "comp_domain_bdr (copy_axis i g) = (comp_domain_bdr g)
     ((i, 0) := domain_bdr g (i, 0), (i, 1) := domain_bdr g (i, 1))"
  by (simp_all add: copy_axis_def Let_def)

lemma fold_copy_axis_frame:
  "omega (fold copy_axis [0..<n] g) = omega g \<and>
   dim (fold copy_axis [0..<n] g) = dim g \<and>
   prob (fold copy_axis [0..<n] g) = prob g \<and>
   domain_bdr (fold copy_axis [0..<n] g) = domain_bdr g \<and>
   pml_lngth (fold copy_axis [0..<n] g) = pml_lngth g"
  by (induction n) (simp_all add: copy_axis_fields)

lemma fold_copy_axis_comp:
  "comp_domain_bdr (fold copy_axis [0..<n] g) (i, j) =
     (if i < n \<and> j < 2 then domain_bdr g (i, j) else comp_domain_bdr g (i, j))"
proof (induction n)
  case 0
  show ?case by simp
next
  case (Suc n)
  have j2: "j < 2 \<longleftrightarrow> j = 0 \<or> j = 1"
    by auto
  show ?case
    using Suc by (auto simp: copy_axis_fields fold_copy_axis_frame j2)
qed

lemma high_layer_fields:
  "omega (high_layer k f g) = omega g"
  "dim (high_layer k f g) = dim g"
  "prob (high_layer k f g) = prob g"
  "domain_bdr (high_layer k f g) = domain_bdr g"
  "pml_lngth (high_layer k f g) =
     (pml_lngth g)((k, 1) := f * (domain_bdr g (k, 1) - domain_bdr g (k, 0)))"
  "comp_domain_bdr (high_layer k f g) =
     (comp_domain_bdr g)((k, 1) := domain_bdr g (k, 1) - f * (domain_bdr g (k, 1) - domain_bdr g (k, 0)))"
  by (simp_all add: high_layer_def Let_def)

subsection \<open>Claims about the layer geometry\<close>

lemma compute_pml_mesh_data_returns:
  assumes "dim g \<le> 3"
    and "prob g = waveguide \<longrightarrow> 1 \<le> dim g"
    and "prob g = cyl_waveguide \<longrightarrow> dim g = 3"
  shows "compute_pml_mesh_data g =
     Some (if prob g = scatter \<or> prob g = load_src then fold scatter_axis [0..<dim g] g
           else if prob g = waveguide then high_layer 0 0.25 (fold copy_axis [0..<dim g] g)
           else high_layer 2 0.125 (fold copy_axis [0..<dim g] g))"
  using assms by (cases "prob g") (simp_all add: compute_pml_mesh_data_def)

text \<open>
  C2.  The policy table of the layer geometry.  Whenever the call stays inside its tables
  it returns, the domain box is unchanged, and for every axis \<open>i\<close> below \<open>dim\<close>:
  for \<open>scatter\<close> and \<open>load_src\<close> both widths of the axis are a quarter of its extent and
  the computational box is the domain box moved inwards by them on both sides; for
  \<open>waveguide\<close> axis 0 has the width of a quarter of its extent on its high side, where
  the computational box is moved inwards by it, and every other side of every axis keeps
  the bound of the domain box; for \<open>cyl_waveguide\<close> the same holds with the last axis
  (axis 2 of the three) and an eighth of its extent.
\<close>

theorem pml_layer_policy:
  assumes "dim g \<le> 3"
    and "prob g = waveguide \<longrightarrow> 1 \<le> dim g"
    and "prob g = cyl_waveguide \<longrightarrow> dim g = 3"
    and "i < dim g"
  shows "\<exists>g'. compute_pml_mesh_data g = Some g' \<and> domain_bdr g' = domain_bdr g \<and>
     (prob g = scatter \<or> prob g = load_src \<longrightarrow>
        pml_lngth g' (i, 0) = 0.25 * (domain_bdr g (i, 1) - domain_bdr g (i, 0)) \<and>
        pml_lngth g' (i, 1) = 0.25 * (domain_bdr g (i, 1) - domain_bdr g (i, 0)) \<and>
        comp_domain_bdr g' (i, 0) =
          domain_bdr g (i, 0) + 0.25 * (domain_bdr g (i, 1) - domain_bdr g (i, 0)) \<and>
        comp_domain_bdr g' (i, 1) =
          domain_bdr g (i, 1) - 0.25 * (domain_bdr g (i, 1) - domain_bdr g (i, 0))) \<and>
     (prob g = waveguide \<longrightarrow>
        pml_lngth g' (0, 1) = 0.25 * (domain_bdr g (0, 1) - domain_bdr g (0, 0)) \<and>
        comp_domain_bdr g' (i, 0) = domain_bdr g (i, 0) \<and>
        comp_domain_bdr g' (i, 1) =
          (if i = 0 then domain_bdr g (0, 1) - 0.25 * (domain_bdr g (0, 1) - domain_bdr g (0, 0))
           else domain_bdr g (i, 1))) \<and>
     (prob g = cyl_waveguide \<longrightarrow>
        pml_lngth g' (dim g - 1, 1) =
          0.125 * (domain_bdr g (dim g - 1, 1) - domain_bdr g (dim g - 1, 0)) \<and>
        comp_domain_bdr g' (i, 0) = domain_bdr g (i, 0) \<and>
        comp_domain_bdr g' (i, 1) =
          (if i = dim g - 1
           then domain_bdr g (i, 1) - 0.125 * (domain_bdr g (i, 1) - domain_bdr g (i, 0))
           else domain_bdr g (i, 1)))"
proof (cases "prob g")
  case load_src
  then show ?thesis
    using assms
    by (simp add: compute_pml_mesh_data_returns fold_scatter_axis_frame
        fold_scatter_axis_lngth fold_scatter_axis_comp)
next
  case scatter
  then show ?thesis
    using assms
    by (simp add: compute_pml_mesh_data_returns fold_scatter_axis_frame
        fold_scatter_axis_lngth fold_scatter_axis_comp)
next
  case waveguide
  then show ?thesis
    using assms
    by (simp add: compute_pml_mesh_data_returns high_layer_fields fold_copy_axis_frame
        fold_copy_axis_comp)
next
  case cyl_waveguide
  then show ?thesis
    using assms
    by (simp add: compute_pml_mesh_data_returns high_layer_fields fold_copy_axis_frame
        fold_copy_axis_comp)
qed

theorem pml_layer_policy_witness:
  "\<exists>g'. compute_pml_mesh_data wg_bar = Some g' \<and>
     pml_lngth g' (0, 1) = 2 \<and> comp_domain_bdr g' (0, 0) = 0 \<and> comp_domain_bdr g' (0, 1) = 6"
  using pml_layer_policy [of wg_bar 0] by (auto simp: wg_bar_def)

text \<open>
  C3, as the code has it.  Whenever the call stays inside its tables it returns, and for
  every axis \<open>i\<close> below \<open>dim\<close>: on a side with an absorbing layer (both sides of every
  axis for \<open>scatter\<close> and \<open>load_src\<close>, the high side of axis 0 for \<open>waveguide\<close>, the
  high side of axis 2 for \<open>cyl_waveguide\<close>) the bound of the computational box is the
  bound of the domain box moved inwards by the stored width, and on a side without a layer
  it is the bound of the domain box.
\<close>

theorem comp_box_invariant:
  assumes "dim g \<le> 3"
    and "prob g = waveguide \<longrightarrow> 1 \<le> dim g"
    and "prob g = cyl_waveguide \<longrightarrow> dim g = 3"
    and "i < dim g"
  shows "\<exists>g'. compute_pml_mesh_data g = Some g' \<and>
     (prob g = scatter \<or> prob g = load_src \<longrightarrow>
        comp_domain_bdr g' (i, 0) = domain_bdr g' (i, 0) + pml_lngth g' (i, 0) \<and>
        comp_domain_bdr g' (i, 1) = domain_bdr g' (i, 1) - pml_lngth g' (i, 1)) \<and>
     (prob g = waveguide \<longrightarrow>
        comp_domain_bdr g' (i, 0) = domain_bdr g' (i, 0) \<and>
        comp_domain_bdr g' (i, 1) =
          (if i = 0 then domain_bdr g' (i, 1) - pml_lngth g' (i, 1) else domain_bdr g' (i, 1))) \<and>
     (prob g = cyl_waveguide \<longrightarrow>
        comp_domain_bdr g' (i, 0) = domain_bdr g' (i, 0) \<and>
        comp_domain_bdr g' (i, 1) =
          (if i = 2 then domain_bdr g' (i, 1) - pml_lngth g' (i, 1) else domain_bdr g' (i, 1)))"
proof (cases "prob g")
  case load_src
  then show ?thesis
    using assms
    by (simp add: compute_pml_mesh_data_returns fold_scatter_axis_frame
        fold_scatter_axis_lngth fold_scatter_axis_comp)
next
  case scatter
  then show ?thesis
    using assms
    by (simp add: compute_pml_mesh_data_returns fold_scatter_axis_frame
        fold_scatter_axis_lngth fold_scatter_axis_comp)
next
  case waveguide
  then show ?thesis
    using assms
    by (simp add: compute_pml_mesh_data_returns high_layer_fields fold_copy_axis_frame
        fold_copy_axis_comp)
next
  case cyl_waveguide
  then show ?thesis
    using assms
    by (simp add: compute_pml_mesh_data_returns high_layer_fields fold_copy_axis_frame
        fold_copy_axis_comp)
qed

theorem comp_box_invariant_witness:
  "\<exists>g'. compute_pml_mesh_data unit_square = Some g' \<and>
     comp_domain_bdr g' (1, 0) = domain_bdr g' (1, 0) + pml_lngth g' (1, 0) \<and>
     comp_domain_bdr g' (1, 1) = domain_bdr g' (1, 1) - pml_lngth g' (1, 1)"
  using comp_box_invariant [of unit_square 1] by (auto simp: unit_square_def)

text \<open>
  The claim as it is written fails on the waveguide: the width of the low side of axis 1,
  a side without a layer, is never assigned and is still the 7 of the storage, so it is
  not zero and the lower bound 0 of the computational box is not the domain bound 0 plus
  that width.
\<close>

theorem comp_box_invariant_counterexample:
  "compute_pml_mesh_data wg_bar = Some wg_bar_pml \<and>
   pml_lngth wg_bar_pml (1, 0) = 7 \<and>
   domain_bdr wg_bar_pml (1, 0) = 0 \<and>
   comp_domain_bdr wg_bar_pml (1, 0) = 0 \<and>
   comp_domain_bdr wg_bar_pml (1, 0) \<noteq> domain_bdr wg_bar_pml (1, 0) + pml_lngth wg_bar_pml (1, 0)"
  by (simp add: wg_bar_pml_def compute_pml_mesh_data_returns wg_bar_def high_layer_fields
      fold_copy_axis_frame fold_copy_axis_comp)

subsection \<open>The concrete configurations after the call\<close>

lemma unit_square_pml_fields:
  "dim unit_square_pml = 2"
  "omega unit_square_pml = 2 * pi"
  "prob unit_square_pml = scatter"
  "domain_bdr unit_square_pml (i, j) = (if j = 1 then 1 else 0)"
  "pml_lngth unit_square_pml (i, j) = (if i < 2 \<and> j < 2 then 1 / 4 else 0)"
  "comp_domain_bdr unit_square_pml (i, j) =
     (if i < 2 \<and> j = 0 then 1 / 4 else if i < 2 \<and> j = 1 then 3 / 4 else 0)"
  by (simp_all add: unit_square_pml_def unit_square_def compute_pml_mesh_data_returns
      fold_scatter_axis_frame fold_scatter_axis_lngth fold_scatter_axis_comp)

lemma unit_square_static_fields:
  "dim unit_square_static = 2"
  "omega unit_square_static = 0"
  "prob unit_square_static = scatter"
  "domain_bdr unit_square_static (i, j) = (if j = 1 then 1 else 0)"
  "pml_lngth unit_square_static (i, j) = (if i < 2 \<and> j < 2 then 1 / 4 else 0)"
  "comp_domain_bdr unit_square_static (i, j) =
     (if i < 2 \<and> j = 0 then 1 / 4 else if i < 2 \<and> j = 1 then 3 / 4 else 0)"
  by (simp_all add: unit_square_static_def static_square_def unit_square_def compute_pml_mesh_data_returns
      fold_scatter_axis_frame fold_scatter_axis_lngth fold_scatter_axis_comp)

lemma wg_bar_pml_fields:
  "dim wg_bar_pml = 3"
  "omega wg_bar_pml = 2 * pi"
  "prob wg_bar_pml = waveguide"
  "domain_bdr wg_bar_pml (i, j) = (if j = 1 then (if i = 0 then 8 else 1) else 0)"
  "pml_lngth wg_bar_pml (i, j) = (if i = 0 \<and> j = 1 then 2 else 7)"
  "comp_domain_bdr wg_bar_pml (i, j) =
     (if i = 0 \<and> j = 1 then 6 else if i < 3 \<and> j = 1 then 1 else 0)"
  by (auto simp: wg_bar_pml_def wg_bar_def compute_pml_mesh_data_returns
      high_layer_fields fold_copy_axis_frame fold_copy_axis_comp)

lemma wg_zero_pml_fields:
  "dim wg_zero_pml = 3"
  "omega wg_zero_pml = 2 * pi"
  "prob wg_zero_pml = waveguide"
  "domain_bdr wg_zero_pml (i, j) = (if j = 1 then (if i = 0 then 8 else 1) else 0)"
  "pml_lngth wg_zero_pml (i, j) = (if i = 0 \<and> j = 1 then 2 else 0)"
  "comp_domain_bdr wg_zero_pml (i, j) =
     (if i = 0 \<and> j = 1 then 6 else if i < 3 \<and> j = 1 then 1 else 0)"
  by (auto simp: wg_zero_pml_def wg_zero_def wg_bar_def compute_pml_mesh_data_returns
      high_layer_fields fold_copy_axis_frame fold_copy_axis_comp)

lemma load_square_fields:
  "dim load_square = 2"
  "prob load_square = load_src"
  by (simp_all add: load_square_def load_unit_square_def unit_square_def compute_pml_mesh_data_returns
      fold_scatter_axis_frame)

lemma unit_cube_pml_fields:
  "dim unit_cube_pml = 3"
  "omega unit_cube_pml = 2 * pi"
  "prob unit_cube_pml = scatter"
  "domain_bdr unit_cube_pml (i, j) = (if j = 1 then 1 else 0)"
  by (simp_all add: unit_cube_pml_def unit_cube_def unit_square_def compute_pml_mesh_data_returns
      fold_scatter_axis_frame)

lemma examples_return:
  "compute_pml_mesh_data unit_square = Some unit_square_pml"
  "compute_pml_mesh_data static_square = Some unit_square_static"
  "compute_pml_mesh_data wg_bar = Some wg_bar_pml"
  "compute_pml_mesh_data wg_zero = Some wg_zero_pml"
  "compute_pml_mesh_data load_unit_square = Some load_square"
  "compute_pml_mesh_data unit_cube = Some unit_cube_pml"
  by (simp_all add: unit_square_pml_def unit_square_static_def wg_bar_pml_def wg_zero_pml_def
      load_square_def unit_cube_pml_def compute_pml_mesh_data_returns
      unit_square_def static_square_def wg_bar_def wg_zero_def load_unit_square_def unit_cube_def)

text \<open>
  A domain box with \<open>domain_min\<^sub>i \<le> domain_max\<^sub>i\<close> gives a computational box with
  \<open>comp_min\<^sub>i \<le> comp_max\<^sub>i\<close>.
\<close>

lemma comp_box_ordered:
  assumes "compute_pml_mesh_data g = Some g'" and "i < dim g"
    and "domain_bdr g (i, 0) \<le> domain_bdr g (i, 1)"
  shows "comp_domain_bdr g' (i, 0) \<le> comp_domain_bdr g' (i, 1)"
proof -
  let ?a = "domain_bdr g (i, 0)" and ?b = "domain_bdr g (i, 1)"
  have quarter: "?a + 1 / 4 * (?b - ?a) \<le> ?b - 1 / 4 * (?b - ?a)"
    and high4: "?a \<le> ?b - 1 / 4 * (?b - ?a)"
    and high8: "?a \<le> ?b - 1 / 8 * (?b - ?a)"
    using assms(3) by (simp_all add: diff_divide_distrib)
  show ?thesis
  proof (cases "prob g = scatter \<or> prob g = load_src")
    case True
    with assms(1) have g': "g' = fold scatter_axis [0..<dim g] g"
      by (auto simp: compute_pml_mesh_data_def split: if_splits)
    have "comp_domain_bdr g' (i, 0) = ?a + 1 / 4 * (?b - ?a)"
      and "comp_domain_bdr g' (i, 1) = ?b - 1 / 4 * (?b - ?a)"
      using assms(2) unfolding g' by (simp_all add: fold_scatter_axis_comp)
    with quarter show ?thesis by simp
  next
    case False
    show ?thesis
    proof (cases "prob g = waveguide")
      case True
      with assms(1) have g': "g' = high_layer 0 0.25 (fold copy_axis [0..<dim g] g)"
        by (auto simp: compute_pml_mesh_data_def split: if_splits)
      have "comp_domain_bdr g' (i, 0) = ?a"
        and "comp_domain_bdr g' (i, 1) = (if i = 0 then ?b - 1 / 4 * (?b - ?a) else ?b)"
        using assms(2) unfolding g'
        by (simp_all add: high_layer_fields fold_copy_axis_frame fold_copy_axis_comp)
      with high4 assms(3) show ?thesis by (cases "i = 0") simp_all
    next
      case not_wg: False
      with False have cyl: "prob g = cyl_waveguide"
        by (cases "prob g") simp_all
      with assms(1) have g': "g' = high_layer 2 0.125 (fold copy_axis [0..<dim g] g)"
        by (auto simp: compute_pml_mesh_data_def split: if_splits)
      have "comp_domain_bdr g' (i, 0) = ?a"
        and "comp_domain_bdr g' (i, 1) = (if i = 2 then ?b - 1 / 8 * (?b - ?a) else ?b)"
        using assms(2) unfolding g'
        by (simp_all add: high_layer_fields fold_copy_axis_frame fold_copy_axis_comp)
      with high8 assms(3) show ?thesis by (cases "i = 2") simp_all
    qed
  qed
qed

section \<open>The stretching function\<close>

subsection \<open>A loop over the indices that writes one entry in each round\<close>

lemma fold_upt_length:
  assumes "\<And>i d. length (f i d) = length d"
  shows "length (fold f [0..<n] d) = length d"
  by (induction n) (simp_all add: assms)

lemma fold_upt_nth:
  assumes len: "\<And>i d. length (f i d) = length d"
    and other: "\<And>i d k. k \<noteq> i \<Longrightarrow> f i d ! k = d ! k"
    and self: "\<And>i d. i < length d \<Longrightarrow> f i d ! i = h i (d ! i)"
    and k: "k < length d"
  shows "fold f [0..<n] d ! k = (if k < n then h k (d ! k) else d ! k)"
proof (induction n)
  case 0
  show ?case by simp
next
  case (Suc n)
  have l: "length (fold f [0..<n] d) = length d"
    by (rule fold_upt_length) (rule len)
  show ?case
  proof (cases "k = n")
    case True
    with Suc k l show ?thesis by (simp add: self)
  next
    case False
    with Suc show ?thesis by (auto simp: other)
  qed
qed

subsection \<open>The entries of the stretching vector\<close>

lemma pml_body_length: "length (pml_body g x i dxs) = length dxs"
  by (simp add: pml_body_def Let_def)

lemma pml_body_other: "k \<noteq> i \<Longrightarrow> pml_body g x i dxs ! k = dxs ! k"
  by (simp add: pml_body_def Let_def)

lemma pml_body_self:
  "i < length dxs \<Longrightarrow> pml_body g x i dxs ! i =
     (if x ! i \<le> comp_domain_bdr g (i, 0) then pml_stretch g x i 0
      else if x ! i \<ge> comp_domain_bdr g (i, 1) then pml_stretch g x i 1
      else dxs ! i)"
  by (simp add: pml_body_def Let_def)

lemma pml_body_twice: "pml_body g x i (pml_body g x i dxs) = pml_body g x i dxs"
  by (simp add: pml_body_def Let_def)

lemma pml_function_length: "length (pml_function g x dxs) = length dxs"
proof -
  have two: "[0..<2] = [0, Suc 0]"
    by (simp add: numeral_2_eq_2)
  show ?thesis
    by (simp add: pml_function_def Let_def two pml_body_twice fold_upt_length pml_body_length)
qed

lemma pml_function_nth:
  assumes "i < dim g" and "dim g \<le> length dxs"
  shows "pml_function g x dxs ! i =
     (if x ! i \<le> comp_domain_bdr g (i, 0) then pml_stretch g x i 0
      else if x ! i \<ge> comp_domain_bdr g (i, 1) then pml_stretch g x i 1
      else Some 1)"
proof -
  have two: "[0..<2] = [0, Suc 0]"
    by (simp add: numeral_2_eq_2)
  let ?init = "fold (\<lambda>i d. d[i := Some 1]) [0..<dim g] dxs"
  have i: "i < length dxs"
    using assms by simp
  have init_len: "length ?init = length dxs"
    by (rule fold_upt_length) simp
  have init: "?init ! i = Some 1"
    using fold_upt_nth [of "\<lambda>i d. d[i := Some 1]" "\<lambda>i v. Some 1" i dxs "dim g"] assms
    by simp
  have "pml_function g x dxs ! i = fold (pml_body g x) [0..<dim g] ?init ! i"
    by (simp add: pml_function_def Let_def two pml_body_twice)
  also have "\<dots> =
     (if x ! i \<le> comp_domain_bdr g (i, 0) then pml_stretch g x i 0
      else if x ! i \<ge> comp_domain_bdr g (i, 1) then pml_stretch g x i 1
      else ?init ! i)"
    using fold_upt_nth [of "pml_body g x"
        "\<lambda>i v. if x ! i \<le> comp_domain_bdr g (i, 0) then pml_stretch g x i 0
               else if x ! i \<ge> comp_domain_bdr g (i, 1) then pml_stretch g x i 1 else v"
        i ?init "dim g"] assms init_len
    by (simp add: pml_body_length pml_body_other pml_body_self)
  finally show ?thesis
    by (simp add: init)
qed

subsection \<open>Claims about the stretching function\<close>

text \<open>
  C1.  For a point \<open>x\<close> and an axis \<open>i\<close> below \<open>dim\<close>: the stretching factor of the axis
  is \<open>1 + 0i\<close> when the coordinate is strictly between the two bounds of the
  computational box; when the coordinate exceeds the upper bound (of a box whose lower
  bound is not above the upper one, as \<open>comp_box_ordered\<close> gives) it is \<open>1 + i coeff |x\<^sub>i - comp_max\<^sub>i|\<^sup>n\<^sup>-\<^sup>1\<close> with
  \<open>coeff = n c / (omega width_hi\<^sub>i\<^sup>n)\<close>, \<open>n = 2\<close>, \<open>c = 10\<close>; below the lower bound the
  same with \<open>comp_min\<^sub>i\<close> and \<open>width_lo\<^sub>i\<close>.  The quotient of the claim is the checked
  division: where its divisor is zero the code's factor is no real number either.
\<close>

theorem pml_function_rule:
  assumes "i < dim g" and "dim g \<le> length dxs"
  shows "(comp_domain_bdr g (i, 0) < x ! i \<and> x ! i < comp_domain_bdr g (i, 1) \<longrightarrow>
            pml_function g x dxs ! i = Some (Complex 1 0)) \<and>
         (comp_domain_bdr g (i, 0) \<le> comp_domain_bdr g (i, 1) \<and>
          comp_domain_bdr g (i, 1) < x ! i \<longrightarrow>
            pml_function g x dxs ! i =
              map_option
                (\<lambda>coeff. 1 + \<i> * complex_of_real coeff *
                   complex_of_real (\<bar>x ! i - comp_domain_bdr g (i, 1)\<bar> ^ (2 - 1)))
                (fdiv (2 * 10) (omega g * pml_lngth g (i, 1) ^ 2))) \<and>
         (x ! i < comp_domain_bdr g (i, 0) \<longrightarrow>
            pml_function g x dxs ! i =
              map_option
                (\<lambda>coeff. 1 + \<i> * complex_of_real coeff *
                   complex_of_real (\<bar>x ! i - comp_domain_bdr g (i, 0)\<bar> ^ (2 - 1)))
                (fdiv (2 * 10) (omega g * pml_lngth g (i, 0) ^ 2)))"
proof -
  have coeff: "pml_coeff g i j = fdiv (2 * 10) (omega g * pml_lngth g (i, j) ^ 2)" for j
    by (simp add: pml_coeff_def pml_n_def pml_c_def fdiv_def)
  have stretch: "pml_stretch g x i j =
      map_option
        (\<lambda>coeff. 1 + \<i> * complex_of_real coeff *
           complex_of_real (\<bar>x ! i - comp_domain_bdr g (i, j)\<bar> ^ (2 - 1)))
        (fdiv (2 * 10) (omega g * pml_lngth g (i, j) ^ 2))" for j
    by (cases "fdiv (2 * 10) (omega g * pml_lngth g (i, j) ^ 2)")
      (simp_all add: pml_stretch_def coeff pml_n_def)
  have one: "Some (Complex 1 0) = Some (1 :: complex)"
    by (simp add: complex_eq_iff)
  show ?thesis
    using assms by (simp add: pml_function_nth stretch one)
qed

theorem pml_function_rule_witness:
  "pml_function unit_square_pml [1 / 2, 7 / 8] [Some 0, Some 0] ! 0 = Some (Complex 1 0) \<and>
   pml_function unit_square_pml [1 / 2, 7 / 8] [Some 0, Some 0] ! 1 =
     Some (1 + \<i> * complex_of_real (20 / (2 * pi * (1 / 4)\<^sup>2)) * complex_of_real (1 / 8)) \<and>
   pml_function unit_square_pml [1 / 8, 1 / 2] [Some 0, Some 0] ! 0 =
     Some (1 + \<i> * complex_of_real (20 / (2 * pi * (1 / 4)\<^sup>2)) * complex_of_real (1 / 8))"
  using pml_function_rule [of 0 unit_square_pml "[Some 0, Some 0]" "[1 / 2, 7 / 8]"]
    pml_function_rule [of 1 unit_square_pml "[Some 0, Some 0]" "[1 / 2, 7 / 8]"]
    pml_function_rule [of 0 unit_square_pml "[Some 0, Some 0]" "[1 / 8, 1 / 2]"]
  by (simp add: unit_square_pml_fields fdiv_def)

text \<open>
  C7, as the code has it.  On an axis \<open>i\<close> whose high side has the width 0 and whose
  upper computational bound is the upper domain bound, at any point of the mesh
  (\<open>x\<^sub>i \<le> domain_max\<^sub>i\<close>): the test \<^verbatim>\<open>x(i) >= comp_domain_bdr(i, 1)\<close> of the high-side
  branch holds exactly on the face \<open>x\<^sub>i = domain_max\<^sub>i\<close>, and the \<open>coeff\<close> of that
  branch divides by \<open>0\<^sup>n\<close>.  So wherever \<open>x\<^sub>i < domain_max\<^sub>i\<close> the branch is not taken
  and the factor is what the low side alone makes it: the low-side stretch at or below
  the lower computational bound, and \<open>1\<close> above it.  On the face the branch is taken and
  its division by zero is the factor, unless the low-side branch, taken as well,
  overwrites it.
\<close>

theorem pml_function_zero_width:
  assumes "i < dim g" and "dim g \<le> length dxs"
    and "pml_lngth g (i, 1) = 0"
    and "comp_domain_bdr g (i, 1) = domain_bdr g (i, 1)"
    and "x ! i \<le> domain_bdr g (i, 1)"
  shows "(comp_domain_bdr g (i, 1) \<le> x ! i \<longleftrightarrow> x ! i = domain_bdr g (i, 1)) \<and>
         pml_coeff g i 1 = None \<and>
         pml_function g x dxs ! i =
           (if x ! i \<le> comp_domain_bdr g (i, 0) then pml_stretch g x i 0
            else if x ! i < domain_bdr g (i, 1) then Some 1
            else None)"
proof -
  have test: "comp_domain_bdr g (i, 1) \<le> x ! i \<longleftrightarrow> x ! i = domain_bdr g (i, 1)"
    using assms(4,5) by auto
  have coeff: "pml_coeff g i 1 = None"
    using assms(3)
    by (cases "fdiv (real pml_n * pml_c) (omega g)") (simp_all add: pml_coeff_def pml_n_def fdiv_def)
  then have stretch: "pml_stretch g x i 1 = None"
    by (simp add: pml_stretch_def)
  have "pml_function g x dxs ! i =
      (if x ! i \<le> comp_domain_bdr g (i, 0) then pml_stretch g x i 0
       else if x ! i < domain_bdr g (i, 1) then Some 1
       else None)"
    using assms stretch by (simp add: pml_function_nth)
  with test coeff show ?thesis
    by blast
qed

theorem pml_function_zero_width_witness:
  "pml_function wg_zero_pml [4, 1 / 2, 1 / 2] [Some 0, Some 0, Some 0] ! 1 = Some 1 \<and>
   pml_function wg_zero_pml [4, 1, 1 / 2] [Some 0, Some 0, Some 0] ! 1 = None \<and>
   pml_function wg_zero_pml [4, 0, 1 / 2] [Some 0, Some 0, Some 0] ! 1 =
     pml_stretch wg_zero_pml [4, 0, 1 / 2] 1 0 \<and>
   pml_coeff wg_zero_pml 1 1 = None"
  using pml_function_zero_width [of 1 wg_zero_pml "[Some 0, Some 0, Some 0]" "[4, 1 / 2, 1 / 2]"]
    pml_function_zero_width [of 1 wg_zero_pml "[Some 0, Some 0, Some 0]" "[4, 1, 1 / 2]"]
    pml_function_zero_width [of 1 wg_zero_pml "[Some 0, Some 0, Some 0]" "[4, 0, 1 / 2]"]
  by (simp add: wg_zero_pml_fields)

text \<open>
  The claim as it is written fails on the waveguide whose widths are zero off the layer:
  the point \<open>(4, 1, 1/2)\<close> of the mesh lies on the face \<open>y = 1\<close>, where the width is 0
  and the computational bound is the domain bound, and the high-side branch of axis 1 is
  taken there and divides by zero.
\<close>

theorem pml_function_zero_width_counterexample:
  "compute_pml_mesh_data wg_zero = Some wg_zero_pml \<and>
   pml_lngth wg_zero_pml (1, 1) = 0 \<and>
   comp_domain_bdr wg_zero_pml (1, 1) = domain_bdr wg_zero_pml (1, 1) \<and>
   domain_bdr wg_zero_pml (1, 0) \<le> [4, 1, 1 / 2] ! 1 \<and>
   [4, 1, 1 / 2] ! 1 \<le> domain_bdr wg_zero_pml (1, 1) \<and>
   [4, 1, 1 / 2] ! 1 \<ge> comp_domain_bdr wg_zero_pml (1, 1) \<and>
   pml_coeff wg_zero_pml 1 1 = None \<and>
   pml_function wg_zero_pml [4, 1, 1 / 2] [Some 0, Some 0, Some 0] ! 1 = None"
proof -
  have "fdiv (real pml_n * pml_c) (omega wg_zero_pml) = Some (20 / (2 * pi))"
    by (simp add: fdiv_def pml_n_def pml_c_def wg_zero_pml_fields)
  then have coeff: "pml_coeff wg_zero_pml 1 1 = None"
    by (simp add: pml_coeff_def fdiv_def pml_n_def wg_zero_pml_fields)
  then have stretch: "pml_stretch wg_zero_pml [4, 1, 1 / 2] 1 1 = None"
    by (simp add: pml_stretch_def)
  show ?thesis
    using coeff stretch by (simp add: pml_function_nth wg_zero_pml_fields examples_return)
qed

subsection \<open>Claims about the inverse Jacobian determinant\<close>

lemma pml_stretch_Re: "pml_stretch g x i j = Some v \<Longrightarrow> Re v = 1"
  by (cases "pml_coeff g i j") (auto simp: pml_stretch_def)

lemma pml_coeff_Some:
  "omega g \<noteq> 0 \<Longrightarrow> pml_lngth g (i, j) \<noteq> 0 \<Longrightarrow> \<exists>a. pml_coeff g i j = Some a"
  by (simp add: pml_coeff_def fdiv_def pml_n_def)

lemma pml_stretch_Some:
  "omega g \<noteq> 0 \<Longrightarrow> pml_lngth g (i, j) \<noteq> 0 \<Longrightarrow> \<exists>v. pml_stretch g x i j = Some v"
  using pml_coeff_Some [of g i j] by (auto simp: pml_stretch_def)

lemma fold_det:
  assumes "\<And>i. i < n \<Longrightarrow> dxs ! i = Some (v i)"
  shows "fold (\<lambda>i det. do { d \<leftarrow> det; w \<leftarrow> dxs ! i; Some (d * w) }) [0..<n] (Some 1) =
     Some (prod_list (map v [0..<n]))"
  using assms by (induction n) simp_all

text \<open>
  C6, as the code has it.  At every point where no stretching coefficient divides by zero
  (\<open>omega\<close> is not 0, and the width is not 0 on a side whose branch the point takes), the
  stretching factors and both parts of \<open>detJinv\<close> are numbers, and \<open>detJinv\<close> times the
  product of the factors over all axes is 1.
\<close>

theorem pml_detJ_inv_roundtrip:
  assumes "omega g \<noteq> 0"
    and "\<And>i. i < dim g \<Longrightarrow> comp_domain_bdr g (i, 1) \<le> x ! i \<Longrightarrow> pml_lngth g (i, 1) \<noteq> 0"
    and "\<And>i. i < dim g \<Longrightarrow> x ! i \<le> comp_domain_bdr g (i, 0) \<Longrightarrow> pml_lngth g (i, 0) \<noteq> 0"
  shows "\<exists>a b dxs. pml_detJ_inv_Re g x = Some a \<and> pml_detJ_inv_Im g x = Some b \<and>
     map Some dxs = pml_function g x (replicate (dim g) (Some 0)) \<and>
     Complex a b * prod_list dxs = 1"
proof -
  let ?dxs = "pml_function g x (replicate (dim g) (Some 0))"
  have len: "length ?dxs = dim g"
    by (simp add: pml_function_length)
  have some: "\<exists>v. ?dxs ! i = Some v \<and> Re v = 1" if "i < dim g" for i
  proof -
    have "\<exists>v. ?dxs ! i = Some v"
      using that assms pml_stretch_Some [of g i 0 x] pml_stretch_Some [of g i 1 x]
      by (auto simp: pml_function_nth)
    then obtain v where v: "?dxs ! i = Some v" ..
    have "Re v = 1"
      using v that pml_stretch_Re [of g x i 0 v] pml_stretch_Re [of g x i 1 v]
      by (auto simp: pml_function_nth split: if_splits)
    with v show ?thesis by blast
  qed
  define vs where "vs = map (\<lambda>i. the (?dxs ! i)) [0..<dim g]"
  have the_nth: "?dxs ! i = Some (the (?dxs ! i))" if "i < dim g" for i
  proof -
    from some [OF that] obtain v where "?dxs ! i = Some v"
      by blast
    then show ?thesis by simp
  qed
  have nth: "?dxs ! i = Some (vs ! i)" if "i < dim g" for i
    using the_nth [OF that] that by (simp add: vs_def)
  have vs: "map Some vs = ?dxs"
    using nth len by (simp add: vs_def list_eq_iff_nth_eq)
  have "0 \<notin> set vs"
  proof
    assume "0 \<in> set vs"
    then obtain i where i: "i < dim g" and "the (?dxs ! i) = 0"
      by (auto simp: vs_def)
    with some [OF i] show False by auto
  qed
  then have nz: "prod_list vs \<noteq> 0"
    by (simp add: prod_list_zero_iff)
  have "pml_det g x = Some (prod_list (map (\<lambda>i. the (?dxs ! i)) [0..<dim g]))"
    unfolding pml_det_def Let_def
    by (rule fold_det) (rule the_nth)
  then have det: "pml_det g x = Some (prod_list vs)"
    by (simp add: vs_def)
  have inv: "pml_det_inv g x = Some (1 / prod_list vs)"
    using nz by (simp add: pml_det_inv_def det cdiv_def)
  have "Complex (Re (1 / prod_list vs)) (Im (1 / prod_list vs)) * prod_list vs = 1"
    using nz by simp
  then show ?thesis
    using vs inv by (auto simp: pml_detJ_inv_Re_def pml_detJ_inv_Im_def)
qed

theorem pml_detJ_inv_roundtrip_witness:
  "\<exists>a b dxs. pml_detJ_inv_Re unit_square_pml [1 / 2, 7 / 8] = Some a \<and>
     pml_detJ_inv_Im unit_square_pml [1 / 2, 7 / 8] = Some b \<and>
     map Some dxs = pml_function unit_square_pml [1 / 2, 7 / 8] (replicate 2 (Some 0)) \<and>
     Complex a b * prod_list dxs = 1"
  using pml_detJ_inv_roundtrip [of unit_square_pml "[1 / 2, 7 / 8]"]
  by (simp add: unit_square_pml_fields)

lemma fold_det_None:
  "i < n \<Longrightarrow> dxs ! i = None \<Longrightarrow>
     fold (\<lambda>i det. do { d \<leftarrow> det; w \<leftarrow> dxs ! i; Some (d * w) }) [0..<n] s = None"
proof (induction n)
  case 0
  then show ?case by simp
next
  case (Suc n)
  show ?case
  proof (cases "i = n")
    case True
    with Suc.prems show ?thesis
      by (cases "fold (\<lambda>i det. do { d \<leftarrow> det; w \<leftarrow> dxs ! i; Some (d * w) }) [0..<n] s") simp_all
  next
    case False
    with Suc show ?thesis by simp
  qed
qed

lemma pml_detJ_inv_None:
  assumes "i < dim g"
    and "pml_function g x (replicate (dim g) (Some 0)) ! i = None"
  shows "pml_detJ_inv_Re g x = None \<and> pml_detJ_inv_Im g x = None"
proof -
  have "pml_det g x = None"
    unfolding pml_det_def Let_def
    by (rule fold_det_None [of i]) (use assms in simp_all)
  then have "pml_det_inv g x = None"
    by (simp add: pml_det_inv_def)
  then show ?thesis
    by (simp add: pml_detJ_inv_Re_def pml_detJ_inv_Im_def)
qed

text \<open>
  The claim as it is written fails where a coefficient divides by zero.  On the waveguide
  whose widths are zero off the layer, at the frequency 1, the point \<open>(4, 1, 1/2)\<close> lies
  on the face \<open>y = 1\<close> and \<open>coeff\<close> divides by the width 0 of that side.  On the unit
  square at the frequency 0 the point \<open>(1/2, 7/8)\<close> lies in the layer of axis 1 and
  \<open>coeff\<close> divides by \<open>omega\<close>.  At both, neither the factor of the axis nor
  \<open>detJinv\<close> is the number of the identity.
\<close>

theorem pml_detJ_inv_roundtrip_counterexample:
  "compute_pml_mesh_data wg_zero = Some wg_zero_pml \<and>
   omega wg_zero_pml = 2 * pi \<and>
   pml_function wg_zero_pml [4, 1, 1 / 2] (replicate 3 (Some 0)) ! 1 = None \<and>
   pml_detJ_inv_Re wg_zero_pml [4, 1, 1 / 2] = None \<and>
   pml_detJ_inv_Im wg_zero_pml [4, 1, 1 / 2] = None \<and>
   compute_pml_mesh_data static_square = Some unit_square_static \<and>
   omega unit_square_static = 0 \<and>
   pml_function unit_square_static [1 / 2, 7 / 8] (replicate 2 (Some 0)) ! 1 = None \<and>
   pml_detJ_inv_Re unit_square_static [1 / 2, 7 / 8] = None \<and>
   pml_detJ_inv_Im unit_square_static [1 / 2, 7 / 8] = None"
proof -
  have "fdiv (real pml_n * pml_c) (omega wg_zero_pml) = Some (20 / (2 * pi))"
    by (simp add: fdiv_def pml_n_def pml_c_def wg_zero_pml_fields)
  then have "pml_coeff wg_zero_pml 1 1 = None"
    by (simp add: pml_coeff_def fdiv_def pml_n_def wg_zero_pml_fields)
  then have "pml_stretch wg_zero_pml [4, 1, 1 / 2] 1 1 = None"
    by (simp add: pml_stretch_def)
  then have face: "pml_function wg_zero_pml [4, 1, 1 / 2] (replicate 3 (Some 0)) ! 1 = None"
    by (simp add: pml_function_nth wg_zero_pml_fields)
  have "pml_coeff unit_square_static 1 1 = None"
    by (simp add: pml_coeff_def fdiv_def unit_square_static_fields)
  then have "pml_stretch unit_square_static [1 / 2, 7 / 8] 1 1 = None"
    by (simp add: pml_stretch_def)
  then have static: "pml_function unit_square_static [1 / 2, 7 / 8] (replicate 2 (Some 0)) ! 1 = None"
    by (simp add: pml_function_nth unit_square_static_fields)
  show ?thesis
    using face static
      pml_detJ_inv_None [of 1 wg_zero_pml "[4, 1, 1 / 2]"]
      pml_detJ_inv_None [of 1 unit_square_static "[1 / 2, 7 / 8]"]
    by (simp add: wg_zero_pml_fields unit_square_static_fields examples_return)
qed

section \<open>The element classifier\<close>

lemma comp_loop_iff:
  "comp_loop g coords v comps b \<longleftrightarrow>
     b \<or> (\<exists>c\<in>set comps. coords (v, c) > comp_domain_bdr g (c, 1) \<or>
                          coords (v, c) < comp_domain_bdr g (c, 0))"
  by (induction comps) auto

lemma fold_comp_loop_iff:
  "fold (\<lambda>v in_pml. comp_loop g coords v comps in_pml) vs b \<longleftrightarrow>
     b \<or> (\<exists>v\<in>set vs. \<exists>c\<in>set comps. coords (v, c) > comp_domain_bdr g (c, 1) \<or>
                                      coords (v, c) < comp_domain_bdr g (c, 0))"
  by (induction vs arbitrary: b) (auto simp: comp_loop_iff)

lemma vertex_loop_iff:
  "vertex_loop g coords vs \<longleftrightarrow>
     (\<exists>v\<in>set vs. \<exists>c<dim g. coords (v, c) > comp_domain_bdr g (c, 1) \<or>
                            coords (v, c) < comp_domain_bdr g (c, 0))"
proof -
  have "(\<exists>c\<in>set [0..<dim g]. P c) \<longleftrightarrow> (\<exists>c<dim g. P c)" for P
    by auto
  then show ?thesis
    unfolding vertex_loop_def fold_comp_loop_iff by simp
qed

lemma compute_pml_elem_list_nth:
  assumes "i < length elems"
  shows "compute_pml_elem_list g elems coords ! i =
     (if vertex_loop g coords (elems ! i) then 0 else 1)"
proof -
  let ?f = "\<lambda>i elem_pml. if vertex_loop g coords (elems ! i) then elem_pml[i := 0] else elem_pml"
  let ?h = "\<lambda>i v. if vertex_loop g coords (elems ! i) then 0 else (v :: int)"
  let ?d = "replicate (length elems) (1 :: int)"
  have "fold ?f [0..<length elems] ?d ! i = (if i < length elems then ?h i (?d ! i) else ?d ! i)"
    by (rule fold_upt_nth) (simp_all add: assms)
  then show ?thesis
    using assms by (simp add: compute_pml_elem_list_def)
qed

text \<open>
  C4.  The entry of element \<open>i\<close> is 0, the mark of the layer, exactly when one of its
  vertices has a coordinate above the upper or below the lower bound of the computational
  box on some axis, and 1, the mark of the interior, otherwise.  On the unit square of the
  scattering variant the computational box is \<open>[1/4, 3/4]\<^sup>2\<close>; there an element whose
  vertices all lie at the centre is marked 1 and one with a vertex at \<open>(0, 0)\<close> is
  marked 0.
\<close>

theorem compute_pml_elem_list_rule:
  assumes "i < length elems"
  shows "compute_pml_elem_list g elems coords ! i =
           (if \<exists>v\<in>set (elems ! i). \<exists>c<dim g.
                 coords (v, c) > comp_domain_bdr g (c, 1) \<or>
                 coords (v, c) < comp_domain_bdr g (c, 0)
            then 0 else 1) \<and>
         compute_pml_mesh_data unit_square = Some unit_square_pml \<and>
         (\<forall>c<2. comp_domain_bdr unit_square_pml (c, 0) = 1 / 4 \<and>
                 comp_domain_bdr unit_square_pml (c, 1) = 3 / 4) \<and>
         ((\<forall>v\<in>set (elems ! i). coords (v, 0) = 1 / 2 \<and> coords (v, 1) = 1 / 2) \<longrightarrow>
            compute_pml_elem_list unit_square_pml elems coords ! i = 1) \<and>
         ((\<exists>v\<in>set (elems ! i). coords (v, 0) = 0 \<and> coords (v, 1) = 0) \<longrightarrow>
            compute_pml_elem_list unit_square_pml elems coords ! i = 0)"
proof -
  have two: "c < 2 \<longleftrightarrow> c = 0 \<or> c = 1" for c :: nat
    by auto
  have loop: "vertex_loop unit_square_pml coords vs \<longleftrightarrow>
      (\<exists>v\<in>set vs. \<exists>c<2. coords (v, c) > 3 / 4 \<or> coords (v, c) < 1 / 4)" for vs
    by (simp add: vertex_loop_iff unit_square_pml_fields cong: conj_cong)
  have box: "compute_pml_mesh_data unit_square = Some unit_square_pml"
    by (rule examples_return)
  have centre: "compute_pml_elem_list unit_square_pml elems coords ! i = 1"
    if all: "\<forall>v\<in>set (elems ! i). coords (v, 0) = 1 / 2 \<and> coords (v, 1) = 1 / 2"
  proof -
    have "\<not> vertex_loop unit_square_pml coords (elems ! i)"
    proof
      assume "vertex_loop unit_square_pml coords (elems ! i)"
      then obtain v c where v: "v \<in> set (elems ! i)" and c: "c < 2"
        and out: "coords (v, c) > 3 / 4 \<or> coords (v, c) < 1 / 4"
        unfolding loop by blast
      from all v c have "coords (v, c) = 1 / 2"
        by (auto simp: two)
      with out show False by simp
    qed
    then show ?thesis
      using assms by (simp add: compute_pml_elem_list_nth)
  qed
  have corner: "compute_pml_elem_list unit_square_pml elems coords ! i = 0"
    if ex: "\<exists>v\<in>set (elems ! i). coords (v, 0) = 0 \<and> coords (v, 1) = 0"
  proof -
    from ex obtain v where v: "v \<in> set (elems ! i)" and "coords (v, 0) = 0"
      by blast
    then have "(0 :: nat) < 2 \<and> (coords (v, 0) > 3 / 4 \<or> coords (v, 0) < 1 / 4)"
      by simp
    with v have "vertex_loop unit_square_pml coords (elems ! i)"
      unfolding loop by blast
    then show ?thesis
      using assms by (simp add: compute_pml_elem_list_nth)
  qed
  have rule: "compute_pml_elem_list g elems coords ! i =
      (if \<exists>v\<in>set (elems ! i). \<exists>c<dim g.
            coords (v, c) > comp_domain_bdr g (c, 1) \<or>
            coords (v, c) < comp_domain_bdr g (c, 0)
       then 0 else 1)"
    using assms by (simp add: compute_pml_elem_list_nth vertex_loop_iff)
  have bounds: "\<forall>c<2. comp_domain_bdr unit_square_pml (c, 0) = 1 / 4 \<and>
      comp_domain_bdr unit_square_pml (c, 1) = 3 / 4"
    by (simp add: unit_square_pml_fields)
  from rule box bounds centre corner show ?thesis
    by blast
qed

theorem compute_pml_elem_list_rule_witness:
  "compute_pml_elem_list unit_square_pml square_elems square_coords ! 0 = 0 \<and>
   compute_pml_elem_list unit_square_pml square_elems square_coords ! 1 = 1"
  using compute_pml_elem_list_rule [of 0 square_elems unit_square_pml square_coords]
    compute_pml_elem_list_rule [of 1 square_elems unit_square_pml square_coords]
  by (simp add: square_elems_def square_coords_def)

section \<open>The volumetric source\<close>

text \<open>
  C9.  For every point \<open>x\<close> and every output vector, \<open>source_im\<close> returns a vector of the
  same size in which every component but the first is the one that was passed in: none of
  them is assigned, nor set to zero.
\<close>

theorem source_im_frame:
  "length (source_im g x f_im) = length f_im \<and>
   (1 \<le> i \<longrightarrow> source_im g x f_im ! i = f_im ! i)"
  by (simp add: source_im_def Let_def)

theorem source_im_frame_witness:
  "length (source_im unit_square_pml [1 / 2, 1 / 2] [3, 4]) = 2 \<and>
   source_im unit_square_pml [1 / 2, 1 / 2] [3, 4] ! 1 = 4"
  using source_im_frame [of unit_square_pml "[1 / 2, 1 / 2]" "[3, 4]" 1]
  by simp

section \<open>The essential boundary data\<close>

lemma bdr_loop_iff:
  "bdr_loop g x is \<longleftrightarrow>
     (\<exists>i\<in>set is. \<bar>x ! i - domain_bdr g (i, 0)\<bar> < 1 / 10 ^ 13 \<or>
                  \<bar>x ! i - domain_bdr g (i, 1)\<bar> < 1 / 10 ^ 13)"
  by (induction "is") auto

lemma copy_part_length: "length (copy_part part jn yn g x E) = length E"
  unfolding copy_part_def Let_def
  by (rule fold_upt_length) simp

text \<open>
  C5.  For the scattering variant, at a point whose coordinate on some axis below \<open>dim\<close>
  lies within \<open>10\<^sup>-\<^sup>1\<^sup>3\<close> of the lower or of the upper bound of the domain box, and for the
  waveguide variant, at a point whose first coordinate lies within \<open>10\<^sup>-\<^sup>1\<^sup>3\<close> of the upper
  bound of axis 0, both functions return the zero vector.  In particular the waveguide data
  of three components at \<open>x\<^sub>0 = domain_max\<^sub>0\<close> is \<open>[0, 0, 0]\<close>, whatever the mode, the
  Bessel functions and the frequency are.
\<close>

theorem E_bdr_data_far_face:
  "(prob g = scatter \<and> i < dim g \<and>
      (\<bar>x ! i - domain_bdr g (i, 0)\<bar> < 1 / 10 ^ 13 \<or> \<bar>x ! i - domain_bdr g (i, 1)\<bar> < 1 / 10 ^ 13) \<longrightarrow>
      E_bdr_data_Re jn yn g x E = replicate (length E) (Some 0) \<and>
      E_bdr_data_Im jn yn g x E = replicate (length E) (Some 0)) \<and>
   (prob g = waveguide \<and> \<bar>x ! 0 - domain_bdr g (0, 1)\<bar> < 1 / 10 ^ 13 \<longrightarrow>
      E_bdr_data_Re jn yn g x E = replicate (length E) (Some 0) \<and>
      E_bdr_data_Im jn yn g x E = replicate (length E) (Some 0)) \<and>
   (prob g = waveguide \<and> x ! 0 = domain_bdr g (0, 1) \<and> length E = 3 \<longrightarrow>
      E_bdr_data_Re jn yn g x E = [Some 0, Some 0, Some 0] \<and>
      E_bdr_data_Im jn yn g x E = [Some 0, Some 0, Some 0])"
proof -
  have scat: "E_bdr_data part jn yn g x E = replicate (length E) (Some 0)"
    if "prob g = scatter" and "i < dim g"
      and "\<bar>x ! i - domain_bdr g (i, 0)\<bar> < 1 / 10 ^ 13 \<or> \<bar>x ! i - domain_bdr g (i, 1)\<bar> < 1 / 10 ^ 13"
    for part
  proof -
    have "bdr_loop g x [0..<dim g]"
      unfolding bdr_loop_iff using that(2,3) by auto
    then show ?thesis
      using that(1) by (simp add: E_bdr_data_def)
  qed
  have wave: "E_bdr_data part jn yn g x E = replicate (length E) (Some 0)"
    if "prob g = waveguide" and "\<bar>x ! 0 - domain_bdr g (0, 1)\<bar> < 1 / 10 ^ 13" for part
    using that by (simp add: E_bdr_data_def Let_def copy_part_length)
  have three: "replicate 3 (Some (0 :: real)) = [Some 0, Some 0, Some 0]"
    by (simp add: numeral_3_eq_3)
  have face: "E_bdr_data part jn yn g x E = [Some 0, Some 0, Some 0]"
    if "prob g = waveguide" and "x ! 0 = domain_bdr g (0, 1)" and "length E = 3" for part
    using wave [of part] that three by simp
  show ?thesis
    unfolding E_bdr_data_Re_def E_bdr_data_Im_def
    using scat [of Re] scat [of Im] wave [of Re] wave [of Im] face [of Re] face [of Im]
    by blast
qed

theorem E_bdr_data_far_face_witness:
  "E_bdr_data_Re (\<lambda>k b. Some 1) (\<lambda>k b. Some 1) unit_square_pml [1 / 2, 1] [Some 5, Some 5] =
     [Some 0, Some 0] \<and>
   E_bdr_data_Im (\<lambda>k b. Some 1) (\<lambda>k b. Some 1) unit_square_pml [1 / 2, 1] [Some 5, Some 5] =
     [Some 0, Some 0] \<and>
   E_bdr_data_Re (\<lambda>k b. Some 1) (\<lambda>k b. Some 1) wg_bar_pml [8, 1 / 2, 1 / 2] [Some 5, Some 5, Some 5] =
     [Some 0, Some 0, Some 0] \<and>
   E_bdr_data_Im (\<lambda>k b. Some 1) (\<lambda>k b. Some 1) wg_bar_pml [8, 1 / 2, 1 / 2] [Some 5, Some 5, Some 5] =
     [Some 0, Some 0, Some 0]"
  using E_bdr_data_far_face [of unit_square_pml 1 "[1 / 2, 1]" "\<lambda>k b. Some 1" "\<lambda>k b. Some 1"
      "[Some 5, Some 5]"]
    E_bdr_data_far_face [of wg_bar_pml 0 "[8, 1 / 2, 1 / 2]" "\<lambda>k b. Some 1" "\<lambda>k b. Some 1"
      "[Some 5, Some 5, Some 5]"]
  by (simp add: unit_square_pml_fields wg_bar_pml_fields numeral_2_eq_2 numeral_3_eq_3)

text \<open>
  C10.  For the volumetric-load variant both functions return the zero vector at every
  point: after \<^verbatim>\<open>E = 0.0\<close> no branch is taken.
\<close>

theorem E_bdr_data_load_src:
  "prob g = load_src \<Longrightarrow>
     E_bdr_data_Re jn yn g x E = replicate (length E) (Some 0) \<and>
     E_bdr_data_Im jn yn g x E = replicate (length E) (Some 0)"
  by (simp add: E_bdr_data_Re_def E_bdr_data_Im_def E_bdr_data_def)

theorem E_bdr_data_load_src_witness:
  "E_bdr_data_Re (\<lambda>k b. Some 1) (\<lambda>k b. Some 1) load_square [1 / 2, 1 / 2] [Some 5, Some 5] =
     [Some 0, Some 0] \<and>
   E_bdr_data_Im (\<lambda>k b. Some 1) (\<lambda>k b. Some 1) load_square [1 / 2, 1 / 2] [Some 5, Some 5] =
     [Some 0, Some 0]"
  using E_bdr_data_load_src [of load_square "\<lambda>k b. Some 1" "\<lambda>k b. Some 1" "[1 / 2, 1 / 2]"
      "[Some 5, Some 5]"]
  by (simp add: load_square_fields numeral_2_eq_2)

section \<open>The point source at its own position\<close>

lemma maxwell_init_length: "length (fold (\<lambda>i E. E[i := Some 0]) [0..<n] E) = length E"
  by (rule fold_upt_length) simp

lemma maxwell_ess_data_length: "length (maxwell_ess_data jn yn g x E) = length E"
  by (simp add: maxwell_ess_data_def Let_def maxwell_init_length split: prod.splits)

lemma scatter_2d_centre:
  assumes "x ! 0 = 0.5 * (domain_bdr g (0, 0) + domain_bdr g (0, 1))"
    and "x ! 1 = 0.5 * (domain_bdr g (1, 0) + domain_bdr g (1, 1))"
  shows "scatter_2d jn yn g x = (None, None)"
proof -
  have "x ! 0 + shift g 0 = 0" and "x ! 1 + shift g 1 = 0"
    using assms by (simp_all add: shift_def)
  then show ?thesis
    by (simp add: scatter_2d_def Let_def fdiv_def)
qed

lemma scatter_3d_centre:
  assumes "x ! 0 = 0.5 * (domain_bdr g (0, 0) + domain_bdr g (0, 1))"
    and "x ! 1 = 0.5 * (domain_bdr g (1, 0) + domain_bdr g (1, 1))"
    and "x ! 2 = 0.5 * (domain_bdr g (2, 0) + domain_bdr g (2, 1))"
  shows "scatter_3d g x = (None, None, None)"
proof -
  have "x ! 0 + shift g 0 = 0" and "x ! 1 + shift g 1 = 0" and "x ! 2 + shift g 2 = 0"
    using assms by (simp_all add: shift_def)
  then show ?thesis
    by (simp add: scatter_3d_def Let_def fdiv_def cdiv_def)
qed

text \<open>
  Away from the singular inputs the formulas are numbers: the three-dimensional point
  source off the centre at a frequency that is not 0, and the waveguide mode at a
  frequency of at least \<open>pi\<close>.
\<close>

lemma scatter_3d_defined:
  assumes "omega g \<noteq> 0" and "x ! 0 + shift g 0 \<noteq> 0"
  shows "\<exists>a b c. scatter_3d g x = (Some a, Some b, Some c)"
proof -
  let ?x0 = "x ! 0 + shift g 0" and ?x1 = "x ! 1 + shift g 1" and ?x2 = "x ! 2 + shift g 2"
  have "0 < ?x0 * ?x0"
    using assms(2) by (simp add: power2_eq_square [symmetric])
  moreover have "0 \<le> ?x1 * ?x1" and "0 \<le> ?x2 * ?x2"
    by simp_all
  ultimately have "0 < ?x0 * ?x0 + ?x1 * ?x1 + ?x2 * ?x2"
    by linarith
  then have "sqrt (?x0 * ?x0 + ?x1 * ?x1 + ?x2 * ?x2) \<noteq> 0"
    by simp
  then show ?thesis
    using assms(1) by (simp add: scatter_3d_def Let_def fdiv_def cdiv_def)
qed

lemma waveguide_mode_defined:
  assumes "pi \<le> omega g"
  shows "\<exists>v. waveguide_mode g x = Some v"
proof -
  have pos: "0 < omega g"
    using assms pi_gt_zero by linarith
  have "pi * pi \<le> omega g * omega g"
    using assms pos pi_gt_zero by (intro mult_mono) linarith+
  with pos show ?thesis
    by (simp add: waveguide_mode_def Let_def fsqrt_def cdiv_def)
qed

text \<open>
  C8.  For the scattering variant in two or three dimensions, at the position of the source
  (the centre of the domain box, where the radial distance \<open>r\<close> is 0), the function
  returns, and every one of the \<open>dim\<close> components it returns has gone through a division
  by \<open>r = 0\<close>: there is no case for \<open>r = 0\<close>, whatever the Bessel functions and the
  frequency are.
\<close>

theorem maxwell_ess_data_source_point:
  assumes "prob g = scatter"
    and "dim g = 2 \<or> dim g = 3"
    and "dim g \<le> length E"
    and "\<And>i. i < dim g \<Longrightarrow> x ! i = 0.5 * (domain_bdr g (i, 0) + domain_bdr g (i, 1))"
    and "i < dim g"
  shows "length (maxwell_ess_data jn yn g x E) = length E \<and>
         maxwell_ess_data jn yn g x E ! i = None"
proof -
  define E' where "E' = fold (\<lambda>i E. E[i := Some 0]) [0..<dim g] E"
  have len: "length E' = length E"
    unfolding E'_def by (rule maxwell_init_length)
  from assms(2) show ?thesis
  proof
    assume d: "dim g = 2"
    have "scatter_2d jn yn g x = (None, None)"
      using assms(4) [of 0] assms(4) [of 1] d by (intro scatter_2d_centre) simp_all
    then have "maxwell_ess_data jn yn g x E = (E'[0 := None])[1 := None]"
      unfolding maxwell_ess_data_def Let_def E'_def [symmetric]
      using assms(1) d by simp
    moreover have "i = 0 \<or> i = 1"
      using assms(5) d by auto
    moreover have "0 < length E'" and "1 < length E'"
      using assms(3) d len by linarith+
    ultimately show ?thesis
      using len by (auto simp: nth_list_update)
  next
    assume d: "dim g = 3"
    have "scatter_3d g x = (None, None, None)"
      using assms(4) [of 0] assms(4) [of 1] assms(4) [of 2] d
      by (intro scatter_3d_centre) simp_all
    then have "maxwell_ess_data jn yn g x E = ((E'[0 := None])[1 := None])[2 := None]"
      unfolding maxwell_ess_data_def Let_def E'_def [symmetric]
      using assms(1) d by simp
    moreover have "i = 0 \<or> i = 1 \<or> i = 2"
      using assms(5) d by auto
    moreover have "0 < length E'" and "1 < length E'" and "2 < length E'"
      using assms(3) d len by linarith+
    ultimately show ?thesis
      using len by (auto simp: nth_list_update)
  qed
qed

theorem maxwell_ess_data_source_point_witness:
  "maxwell_ess_data (\<lambda>k b. Some 1) (\<lambda>k b. Some 1) unit_square_pml [1 / 2, 1 / 2] [Some 0, Some 0] ! 0 = None \<and>
   maxwell_ess_data (\<lambda>k b. Some 1) (\<lambda>k b. Some 1) unit_square_pml [1 / 2, 1 / 2] [Some 0, Some 0] ! 1 = None \<and>
   maxwell_ess_data (\<lambda>k b. Some 1) (\<lambda>k b. Some 1) unit_cube_pml [1 / 2, 1 / 2, 1 / 2]
     [Some 0, Some 0, Some 0] ! 2 = None"
proof -
  have two: "i < 2 \<longleftrightarrow> i = 0 \<or> i = 1" for i :: nat
    by auto
  have three: "i < 3 \<longleftrightarrow> i = 0 \<or> i = 1 \<or> i = 2" for i :: nat
    by auto
  have c2: "[1 / 2, 1 / 2 :: real] ! i =
      0.5 * (domain_bdr unit_square_pml (i, 0) + domain_bdr unit_square_pml (i, 1))"
    if "i < dim unit_square_pml" for i
    using that by (auto simp: unit_square_pml_fields two)
  have c3: "[1 / 2, 1 / 2, 1 / 2 :: real] ! i =
      0.5 * (domain_bdr unit_cube_pml (i, 0) + domain_bdr unit_cube_pml (i, 1))"
    if "i < dim unit_cube_pml" for i
    using that by (auto simp: unit_cube_pml_fields three)
  show ?thesis
    using maxwell_ess_data_source_point [of unit_square_pml "[Some 0, Some 0]" "[1 / 2, 1 / 2]" 0
        "\<lambda>k b. Some 1" "\<lambda>k b. Some 1", OF _ _ _ c2]
      maxwell_ess_data_source_point [of unit_square_pml "[Some 0, Some 0]" "[1 / 2, 1 / 2]" 1
        "\<lambda>k b. Some 1" "\<lambda>k b. Some 1", OF _ _ _ c2]
      maxwell_ess_data_source_point [of unit_cube_pml "[Some 0, Some 0, Some 0]"
        "[1 / 2, 1 / 2, 1 / 2]" 2 "\<lambda>k b. Some 1" "\<lambda>k b. Some 1", OF _ _ _ c3]
    by (simp add: unit_square_pml_fields unit_cube_pml_fields)
qed

end
